theory Spec2Isabelle
  imports Main "HOL-Library.Sublist"
begin

section \<open>Python strings, dictionaries and exceptions\<close>

text \<open>
  The composer of \<^verbatim>\<open>ebnf_composer.py\<close> only builds text. Python strings are
  modelled as \<^typ>\<open>string\<close>; the backslash, which cannot be typed inside a string
  literal, is the one-character string \<open>bs\<close>.
\<close>

definition bs :: string where
  "bs = [CHR 0x5C]"

text \<open>\<^verbatim>\<open>sep.join(xs)\<close>.\<close>

fun join :: "string \<Rightarrow> string list \<Rightarrow> string" where
  "join sep [] = []"
| "join sep [x] = x"
| "join sep (x # y # ys) = x @ sep @ join sep (y # ys)"

text \<open>
  The exceptions the composer can meet. \<open>KeyError\<close> carries the missing key.
  \<open>Unmodelled\<close> is not a Python exception: it marks a format string that uses a part of
  \<^verbatim>\<open>str.format\<close> this development does not describe (conversions, format
  specifications, attribute or index access, nested braces), so that nothing is
  claimed about such a template.
\<close>

datatype error = KeyError string | ValueError | IndexError | Unmodelled

text \<open>\<^verbatim>\<open>d[k]\<close> and \<^verbatim>\<open>d.get(k, default)\<close> on a dictionary with string keys.\<close>

definition getitem :: "(string \<rightharpoonup> 'v) \<Rightarrow> string \<Rightarrow> error + 'v" where
  "getitem d k = (case d k of None \<Rightarrow> Inl (KeyError k) | Some v \<Rightarrow> Inr v)"

definition get_default :: "(string \<rightharpoonup> 'v) \<Rightarrow> string \<Rightarrow> 'v \<Rightarrow> 'v" where
  "get_default d k dflt = (case d k of None \<Rightarrow> dflt | Some v \<Rightarrow> v)"

text \<open>
  Running a fallible function over a list, left to right, stopping at the first
  exception: what a comprehension or a \<^verbatim>\<open>for\<close> loop does when its body raises.
\<close>

fun for_each :: "('a \<Rightarrow> error + 'b) \<Rightarrow> 'a list \<Rightarrow> error + 'b list" where
  "for_each f [] = Inr []"
| "for_each f (x # xs) =
     (case f x of
        Inl e \<Rightarrow> Inl e
      | Inr y \<Rightarrow> (case for_each f xs of Inl e \<Rightarrow> Inl e | Inr ys \<Rightarrow> Inr (y # ys)))"

subsection \<open>\<^verbatim>\<open>str.format\<close> with keyword arguments\<close>

text \<open>
  The templates are expanded with \<^verbatim>\<open>template.format(key=..., valrule=...)\<close>:
  keyword arguments only, all of them strings. The scanner below follows CPython's:
  \<^verbatim>\<open>{{\<close> and \<^verbatim>\<open>}}\<close> are literal braces, a lone \<^verbatim>\<open>}\<close> or an unclosed
  \<^verbatim>\<open>{\<close> is a \<^verbatim>\<open>ValueError\<close>, \<^verbatim>\<open>{name}\<close> is replaced by the keyword
  argument \<open>name\<close> (\<^verbatim>\<open>KeyError\<close> when there is none), and an empty or numeric field
  asks for a positional argument, of which there are none (\<^verbatim>\<open>IndexError\<close>; a
  number of ten digits or more may overflow the machine integer first, and is left
  undescribed). Replaced text is not scanned again.
\<close>

definition emit :: "string \<Rightarrow> error + string \<Rightarrow> error + string" where
  "emit s r = (case r of Inl e \<Rightarrow> Inl e | Inr t \<Rightarrow> Inr (s @ t))"

definition is_digit :: "char \<Rightarrow> bool" where
  "is_digit c = (c \<in> set ''0123456789'')"

definition get_field :: "(string \<times> string) list \<Rightarrow> string \<Rightarrow> error + string" where
  "get_field kwargs field =
     (if list_ex (\<lambda>c. c \<in> set ''{[.!:'') field then Inl Unmodelled
      else if list_all is_digit field then
        (if length field \<le> 9 then Inl IndexError else Inl Unmodelled)
      else getitem (map_of kwargs) field)"

fun format_text :: "(string \<times> string) list \<Rightarrow> string \<Rightarrow> error + string"
and format_field :: "(string \<times> string) list \<Rightarrow> string \<Rightarrow> string \<Rightarrow> error + string" where
  "format_text kwargs [] = Inr []"
| "format_text kwargs (c # cs) =
     (if c = CHR ''{'' then
        (case cs of
           [] \<Rightarrow> Inl ValueError
         | d # ds \<Rightarrow> if d = CHR ''{'' then emit ''{'' (format_text kwargs ds)
                    else format_field kwargs [] cs)
      else if c = CHR ''}'' then
        (case cs of
           [] \<Rightarrow> Inl ValueError
         | d # ds \<Rightarrow> if d = CHR ''}'' then emit ''}'' (format_text kwargs ds)
                    else Inl ValueError)
      else emit [c] (format_text kwargs cs))"
| "format_field kwargs acc [] = Inl ValueError"
| "format_field kwargs acc (c # cs) =
     (if c = CHR ''}'' then
        (case get_field kwargs (rev acc) of
           Inl e \<Rightarrow> Inl e
         | Inr v \<Rightarrow> emit v (format_text kwargs cs))
      else format_field kwargs (c # acc) cs)"

definition str_format :: "string \<Rightarrow> (string \<times> string) list \<Rightarrow> error + string" where
  "str_format template kwargs = format_text kwargs template"

subsection \<open>Schema values\<close>

text \<open>
  Enum elements are JSON values. Those whose \<^verbatim>\<open>str()\<close> is plain text are modelled:
  \<^verbatim>\<open>None\<close>, booleans, integers and strings (floats, lists and objects are left out).
  \<open>py_str\<close> is \<^verbatim>\<open>str(v)\<close> and \<open>py_bool\<close> is the truth value \<^verbatim>\<open>if v\<close> tests.
\<close>

datatype pyval = PyNone | PyBool bool | PyInt int | PyStr string

fun nat_str :: "nat \<Rightarrow> string" where
  "nat_str n =
     (if n < 10 then [''0123456789'' ! n]
      else nat_str (n div 10) @ [''0123456789'' ! (n mod 10)])"

declare nat_str.simps [simp del]

definition int_str :: "int \<Rightarrow> string" where
  "int_str i = (if i < 0 then CHR ''-'' # nat_str (nat (- i)) else nat_str (nat i))"

fun py_str :: "pyval \<Rightarrow> string" where
  "py_str PyNone = ''None''"
| "py_str (PyBool b) = (if b then ''True'' else ''False'')"
| "py_str (PyInt i) = int_str i"
| "py_str (PyStr s) = s"

fun py_bool :: "pyval \<Rightarrow> bool" where
  "py_bool PyNone = False"
| "py_bool (PyBool b) = b"
| "py_bool (PyInt i) = (i \<noteq> 0)"
| "py_bool (PyStr s) = (s \<noteq> [])"

text \<open>
  A property schema is a dictionary of which the composer reads two keys:
  \<^verbatim>\<open>"enum"\<close>, a list of values, and \<^verbatim>\<open>"type"\<close>, one type name or a list of type
  names. Either may be absent.
\<close>

datatype type_spec = TypeName string | TypeList "string list"

record prop_schema =
  p_enum :: "pyval list option"
  p_type :: "type_spec option"

section \<open>The class constants\<close>

definition BASE_PRIMITIVE_GRAMMAR :: string where
  \<open>BASE_PRIMITIVE_GRAMMAR = concat
    [''\<newline>'',
     ''        basic_string ::= ((['' @ bs @ ''"] basic_string_1 ['' @ bs @ ''"]))\<newline>'',
     ''        basic_string_1 ::= "" | [^"'' @ bs @ bs @ bs @ ''x00-'' @ bs @ ''x1F] basic_string_1 | "'' @ bs @ bs @ ''" escape basic_string_1\<newline>'',
     ''        escape ::= ["'' @ bs @ bs @ ''/bfnrt] | "u" [A-Fa-f0-9]{4}\<newline>'',
     ''        basic_integer ::= ("0" | "-"? [1-9] [0-9]*) ".0"?\<newline>'',
     ''        basic_number ::= ("0" | "-"? [1-9] [0-9]*) ("." [0-9]+)? ([eE] [+-]? [0-9]+)?\<newline>'',
     ''        basic_array ::= "[" ("" | ws basic_any (ws "," ws basic_any)*) ws "]"\<newline>'',
     ''        basic_object ::= "{" ("" | ws basic_string ws ":" ws basic_any ( ws "," ws basic_string ws ":" ws basic_any)*) ws "}"\<newline>'',
     ''        ws ::= [ '' @ bs @ ''n'' @ bs @ ''t]*\<newline>'',
     ''    '']\<close>

definition json_grammar_ebnf_str :: string where
  \<open>json_grammar_ebnf_str = concat
    [''\<newline>'',
     ''        json ::= basic_array | basic_object\<newline>'',
     ''        basic_any ::= basic_number | basic_string | basic_boolean | basic_null | basic_array | basic_object\<newline>'',
     ''        basic_boolean ::= "true" | "false"\<newline>'',
     ''        basic_null ::= "null"\<newline>'',
     ''    ''] @ BASE_PRIMITIVE_GRAMMAR\<close>

definition pythonic_grammar_ebnf_str :: string where
  \<open>pythonic_grammar_ebnf_str = concat
    [''\<newline>'',
     ''        pythonic ::= basic_number | basic_string | basic_array | "True" | "False" | "None"\<newline>'',
     ''        basic_any ::= basic_number | basic_string | basic_array | basic_object\<newline>'',
     ''        basic_boolean ::= "True" | "False"\<newline>'',
     ''        basic_null ::= "None"\<newline>'',
     ''    ''] @ BASE_PRIMITIVE_GRAMMAR\<close>

definition xml_grammar_ebnf_str :: string where
  \<open>xml_grammar_ebnf_str = concat
    [''\<newline>'',
     ''        xml ::= xml_element | xml_text\<newline>'',
     ''        xml_element ::= basic_string | basic_number | basic_boolean | basic_null | basic_array | basic_object\<newline>'',
     ''        xml_text ::= [^<>]*\<newline>'',
     ''        basic_any ::= basic_number | basic_string | basic_boolean | basic_null | basic_array | basic_object\<newline>'',
     ''        basic_boolean ::= "true" | "false"\<newline>'',
     ''        basic_null ::= "null"\<newline>'',
     ''    ''] @ BASE_PRIMITIVE_GRAMMAR\<close>

definition CALL_RULE_MAP :: "(string \<times> string) list" where
  \<open>CALL_RULE_MAP =
    [(''pythonic'', ''call_{name} ::= "{name}" "(" {arguments_rule} ")"''),
     (''json'', ''call_{name} ::= "{{" "'' @ bs @ ''"name'' @ bs @ ''"" ":" "'' @ bs @ ''"{name}'' @ bs @ ''"" ", " "'' @ bs @ ''"arguments'' @ bs @ ''"" ":" {arguments_rule} "}}"''),
     (''xml'', ''call_{name} ::= "<function={name}>'' @ bs @ ''n" {arguments_rule} "'' @ bs @ ''n</function>"'')]\<close>

definition ARGUMENTS_RULE_MAP :: "(string \<times> string) list" where
  \<open>ARGUMENTS_RULE_MAP =
    [(''pythonic'', ''{arg_rules}''),
     (''json'', ''"{{" {arg_rules} "}}"''),
     (''xml'', ''{arg_rules}'')]\<close>

definition KEY_VALUE_RULE_MAP :: "(string \<times> string) list" where
  \<open>KEY_VALUE_RULE_MAP =
    [(''pythonic'', ''"{key}" "=" {valrule}''),
     (''json'', ''"'' @ bs @ ''"{key}'' @ bs @ ''"" ":" {valrule}''),
     (''xml'', ''"<parameter={key}>'' @ bs @ ''n" {valrule} "'' @ bs @ ''n</parameter>"'')]\<close>

definition BASE_TYPE_MAPPING :: "(string \<times> string) list" where
  \<open>BASE_TYPE_MAPPING =
    [(''string'', ''basic_string''),
     (''number'', ''basic_number''),
     (''integer'', ''basic_number''),
     (''boolean'', ''basic_boolean''),
     (''null'', ''basic_null''),
     (''array'', ''basic_array''),
     (''object'', ''basic_object'')]\<close>

definition FORMAT_TYPE_OVERRIDES :: "(string \<times> (string \<times> string) list) list" where
  \<open>FORMAT_TYPE_OVERRIDES =
    [(''pythonic'', [(''boolean'', ''"True" | "False"''), (''null'', ''"None"'')]),
     (''xml'', [(''string'', ''xml_text'')])]\<close>

section \<open>The value rule of a property\<close>

text \<open>
  \<^verbatim>\<open>format_enum_val\<close> is the closure inside \<^verbatim>\<open>_handle_enum\<close>; its two captured
  variables are passed as arguments.
\<close>

definition format_enum_val :: "type_spec \<Rightarrow> string \<Rightarrow> pyval \<Rightarrow> string" where
  \<open>format_enum_val prop_type function_format v =
     (if prop_type = TypeName ''boolean'' then
        (if function_format = ''json'' \<or> function_format = ''xml'' then
           (if py_bool v then ''true'' else ''false'')
         else if function_format = ''pythonic'' then
           (if py_bool v then ''True'' else ''False'')
         else py_str v)
      else if prop_type = TypeName ''string'' then
        (if function_format = ''xml'' then ''"'' @ py_str v @ ''"''
         else ''"'' @ bs @ ''"'' @ py_str v @ bs @ ''""'')
      else py_str v)\<close>

definition handle_enum :: "pyval list \<Rightarrow> type_spec option \<Rightarrow> string \<Rightarrow> string" where
  "handle_enum enum_values ty function_format =
     (let prop_type = (case ty of None \<Rightarrow> TypeName ''string'' | Some t \<Rightarrow> t);
          formatted_values = map (format_enum_val prop_type function_format) enum_values;
          enum_rule = join '' | '' formatted_values
      in if length formatted_values > 1 then ''('' @ enum_rule @ '')'' else enum_rule)"

definition get_type_mapping :: "string \<Rightarrow> (string \<rightharpoonup> string)" where
  "get_type_mapping function_format =
     (let mapping = map_of BASE_TYPE_MAPPING;
          overrides = get_default (map_of FORMAT_TYPE_OVERRIDES) function_format []
      in mapping ++ map_of overrides)"

definition handle_type :: "type_spec \<Rightarrow> string \<Rightarrow> string" where
  "handle_type prop_type function_format =
     (let type_mapping = get_type_mapping function_format
      in case prop_type of
           TypeList ts \<Rightarrow>
             (let type_rules = map (\<lambda>single_type. get_default type_mapping single_type function_format) ts
              in if type_rules \<noteq> [] then join '' | '' type_rules else function_format)
         | TypeName t \<Rightarrow> get_default type_mapping t function_format)"

definition get_value_rule :: "prop_schema \<Rightarrow> string \<Rightarrow> string" where
  "get_value_rule p function_format =
     (case p_enum p of
        Some enum_values \<Rightarrow> handle_enum enum_values (p_type p) function_format
      | None \<Rightarrow>
          (case p_type p of
             Some prop_type \<Rightarrow> handle_type prop_type function_format
           | None \<Rightarrow> function_format))"

section \<open>Tools and the arguments of \<^verbatim>\<open>build_ebnf\<close>\<close>

text \<open>
  A tool is read through \<^verbatim>\<open>tool.function.name\<close> and
  \<^verbatim>\<open>tool.function.parameters\<close>; the parameters are \<^verbatim>\<open>None\<close> or a dictionary
  whose keys \<^verbatim>\<open>"properties"\<close> and \<^verbatim>\<open>"required"\<close> may be absent. The property
  mapping is kept as an association list, in declaration order.
\<close>

record params =
  params_properties :: "(string \<times> prop_schema) list option"
  params_required :: "string list option"

record tool =
  function_name :: string
  function_parameters :: "params option"

text \<open>The keyword arguments of \<^verbatim>\<open>build_ebnf\<close>, \<^verbatim>\<open>None\<close> being \<open>None\<close>.\<close>

record build_args =
  sequence_start_token :: "string option"
  sequence_end_token :: "string option"
  individual_call_start_token :: "string option"
  individual_call_end_token :: "string option"
  tool_call_separator :: "string option"
  call_rule_fmt :: "string option"
  key_value_rule_fmt :: "string option"
  key_value_separator :: string

text \<open>
  The truth value of an optional string (\<^verbatim>\<open>None\<close> and the empty string are false),
  and its text inside an f-string.
\<close>

definition truthy :: "string option \<Rightarrow> bool" where
  "truthy x = (case x of None \<Rightarrow> False | Some s \<Rightarrow> s \<noteq> [])"

definition fstr :: "string option \<Rightarrow> string" where
  "fstr x = (case x of None \<Rightarrow> ''None'' | Some s \<Rightarrow> s)"

section \<open>\<^verbatim>\<open>build_ebnf\<close>\<close>

subsection \<open>Step 1: the root rule\<close>

definition root_rule :: "build_args \<Rightarrow> string" where
  \<open>root_rule a =
     (let function_call_unit =
            (if truthy (individual_call_start_token a) \<and> truthy (individual_call_end_token a)
             then ''"'' @ fstr (individual_call_start_token a) @ ''" function_call "''
                  @ fstr (individual_call_end_token a) @ ''"''
             else ''function_call'');
          base_pattern =
            (case tool_call_separator a of
               Some sep \<Rightarrow> function_call_unit @ '' ( "'' @ sep @ ''" '' @ function_call_unit @ '' )*''
             | None \<Rightarrow> function_call_unit)
      in if truthy (sequence_start_token a) \<and> truthy (sequence_end_token a)
         then ''"'' @ fstr (sequence_start_token a) @ ''" '' @ base_pattern @ '' "''
              @ fstr (sequence_end_token a) @ ''"''
         else base_pattern)\<close>

subsection \<open>Step 2: the header rules\<close>

definition header_lines :: "tool list \<Rightarrow> build_args \<Rightarrow> string list" where
  "header_lines tools a =
     [''root ::= '' @ root_rule a,
      ''function_call ::= '' @ join '' | '' (map (\<lambda>t. ''call_'' @ function_name t) tools)]"

subsection \<open>Step 3: the templates\<close>

definition call_template :: "string \<Rightarrow> build_args \<Rightarrow> error + string" where
  "call_template function_format a =
     (if truthy (call_rule_fmt a) then Inr (''call_{name} ::= '' @ fstr (call_rule_fmt a))
      else getitem (map_of CALL_RULE_MAP) function_format)"

definition args_template :: "string \<Rightarrow> error + string" where
  "args_template function_format = getitem (map_of ARGUMENTS_RULE_MAP) function_format"

definition key_value_template :: "string \<Rightarrow> build_args \<Rightarrow> error + string" where
  "key_value_template function_format a =
     (if truthy (key_value_rule_fmt a) then Inr (fstr (key_value_rule_fmt a))
      else getitem (map_of KEY_VALUE_RULE_MAP) function_format)"

subsection \<open>Step 4: the rules of one tool\<close>

text \<open>\<^verbatim>\<open>params.get("properties", {})\<close> and \<^verbatim>\<open>params.get("required", [])\<close>.\<close>

definition tool_properties :: "tool \<Rightarrow> (string \<times> prop_schema) list" where
  "tool_properties t =
     (case function_parameters t of
        None \<Rightarrow> []
      | Some ps \<Rightarrow> (case params_properties ps of None \<Rightarrow> [] | Some props \<Rightarrow> props))"

definition tool_required :: "tool \<Rightarrow> string list" where
  "tool_required t =
     (case function_parameters t of
        None \<Rightarrow> []
      | Some ps \<Rightarrow> (case params_required ps of None \<Rightarrow> [] | Some r \<Rightarrow> r))"

text \<open>
  The loop that fills the dictionary \<^verbatim>\<open>prop_kv_pairs\<close>, one formatted key-value
  pair per property; the dictionary built so far is the last argument.
\<close>

fun prop_kv_pairs ::
  "string \<Rightarrow> string \<Rightarrow> (string \<times> prop_schema) list \<Rightarrow> (string \<rightharpoonup> string)
     \<Rightarrow> error + (string \<rightharpoonup> string)" where
  "prop_kv_pairs kv_template function_format [] d = Inr d"
| "prop_kv_pairs kv_template function_format ((prop_name, schema) # rest) d =
     (let value_rule = get_value_rule schema function_format
      in case str_format kv_template [(''key'', prop_name), (''valrule'', value_rule)] of
           Inl e \<Rightarrow> Inl e
         | Inr pair \<Rightarrow> prop_kv_pairs kv_template function_format rest (d(prop_name \<mapsto> pair)))"

text \<open>The two comprehensions that split the property names.\<close>

definition required_list :: "string list \<Rightarrow> string set \<Rightarrow> string list" where
  "required_list ordered_props required_props = [p \<leftarrow> ordered_props. p \<in> required_props]"

definition optional_list :: "string list \<Rightarrow> string set \<Rightarrow> string list" where
  "optional_list ordered_props required_props = [p \<leftarrow> ordered_props. p \<notin> required_props]"

text \<open>
  The two nested \<^verbatim>\<open>range\<close> loops over the optional properties: \<open>opt_part\<close> is one
  step of the inner loop, \<open>opt_alternative\<close> the joined \<^verbatim>\<open>opt_parts\<close> of one
  \<open>i\<close>, \<open>opt_alternatives\<close> the list the outer loop collects.
\<close>

definition opt_part ::
  "string \<Rightarrow> (string \<rightharpoonup> string) \<Rightarrow> string list \<Rightarrow> nat \<Rightarrow> nat \<Rightarrow> error + string" where
  \<open>opt_part sep kv optional i j =
     (case getitem kv (optional ! j) of
        Inl e \<Rightarrow> Inl e
      | Inr pair \<Rightarrow> Inr (if j = i then pair else '' ( "'' @ sep @ ''" '' @ pair @ '' )?''))\<close>

definition opt_alternative ::
  "string \<Rightarrow> (string \<rightharpoonup> string) \<Rightarrow> string list \<Rightarrow> nat \<Rightarrow> error + string" where
  "opt_alternative sep kv optional i =
     (case for_each (opt_part sep kv optional i) [i..<length optional] of
        Inl e \<Rightarrow> Inl e
      | Inr opt_parts \<Rightarrow> Inr (concat opt_parts))"

definition opt_alternatives ::
  "string \<Rightarrow> (string \<rightharpoonup> string) \<Rightarrow> string list \<Rightarrow> error + string list" where
  "opt_alternatives sep kv optional =
     for_each (opt_alternative sep kv optional) [0..<length optional]"

text \<open>The list \<^verbatim>\<open>rule_parts\<close>, joined: the arguments fragment.\<close>

definition required_part ::
  "string \<Rightarrow> (string \<rightharpoonup> string) \<Rightarrow> string list \<Rightarrow> error + string list" where
  \<open>required_part sep kv required =
     (if required \<noteq> [] then
        (case for_each (getitem kv) required of
           Inl e \<Rightarrow> Inl e
         | Inr pairs \<Rightarrow> Inr [join ('' "'' @ sep @ ''" '') pairs])
      else Inr [])\<close>

definition combined_args ::
  "string \<Rightarrow> (string \<rightharpoonup> string) \<Rightarrow> string list \<Rightarrow> string list \<Rightarrow> error + string" where
  \<open>combined_args sep kv required optional =
     (case required_part sep kv required of
        Inl e \<Rightarrow> Inl e
      | Inr rule_parts \<Rightarrow>
          if optional \<noteq> [] then
            (case opt_alternatives sep kv optional of
               Inl e \<Rightarrow> Inl e
             | Inr alts \<Rightarrow>
                 if required \<noteq> [] then
                   Inr (concat (rule_parts @ ['' ( "'' @ sep @ ''" ( '', join '' | '' alts, '' ) )?'']))
                 else
                   Inr (concat (rule_parts @ [''( '', join '' | '' alts, '' )?''])))
          else Inr (concat rule_parts))\<close>

text \<open>
  The arguments fragment of a tool: the value of \<^verbatim>\<open>combined_args\<close> at the end of
  the tool's iteration.
\<close>

definition arguments_fragment :: "string \<Rightarrow> string \<Rightarrow> string \<Rightarrow> tool \<Rightarrow> error + string" where
  "arguments_fragment kv_template function_format sep t =
     (let properties = tool_properties t;
          required_props = set (tool_required t);
          ordered_props = map fst properties
      in case prop_kv_pairs kv_template function_format properties Map.empty of
           Inl e \<Rightarrow> Inl e
         | Inr kv \<Rightarrow>
             combined_args sep kv (required_list ordered_props required_props)
               (optional_list ordered_props required_props))"

definition tool_rules ::
  "string \<Rightarrow> string \<Rightarrow> string \<Rightarrow> string \<Rightarrow> string \<Rightarrow> tool \<Rightarrow> error + string list" where
  "tool_rules function_format call_tmpl args_tmpl kv_template sep t =
     (let tool_name = function_name t
      in case arguments_fragment kv_template function_format sep t of
           Inl e \<Rightarrow> Inl e
         | Inr combined \<Rightarrow>
             (case str_format args_tmpl [(''arg_rules'', combined)] of
                Inl e \<Rightarrow> Inl e
              | Inr arguments_rule \<Rightarrow>
                  (case str_format call_tmpl
                          [(''name'', tool_name), (''arguments_rule'', ''arguments_'' @ tool_name)] of
                     Inl e \<Rightarrow> Inl e
                   | Inr call_rule \<Rightarrow>
                       Inr [call_rule, ''arguments_'' @ tool_name @ '' ::= '' @ arguments_rule])))"

subsection \<open>Step 5: the base grammar, and the whole function\<close>

definition grammar_dict :: "(string \<times> string) list" where
  "grammar_dict =
     [(''pythonic'', pythonic_grammar_ebnf_str),
      (''json'', json_grammar_ebnf_str),
      (''xml'', xml_grammar_ebnf_str)]"

definition base_grammar :: "string \<Rightarrow> string" where
  "base_grammar function_format =
     get_default (map_of grammar_dict) function_format json_grammar_ebnf_str"

definition build_ebnf :: "tool list \<Rightarrow> string \<Rightarrow> build_args \<Rightarrow> error + string" where
  "build_ebnf tools function_format a =
     (let ebnf_lines = header_lines tools a
      in case call_template function_format a of
           Inl e \<Rightarrow> Inl e
         | Inr call_tmpl \<Rightarrow>
             (case args_template function_format of
                Inl e \<Rightarrow> Inl e
              | Inr args_tmpl \<Rightarrow>
                  (case key_value_template function_format a of
                     Inl e \<Rightarrow> Inl e
                   | Inr kv_template \<Rightarrow>
                       (case for_each (tool_rules function_format call_tmpl args_tmpl kv_template
                                         (key_value_separator a)) tools of
                          Inl e \<Rightarrow> Inl e
                        | Inr rules \<Rightarrow>
                            Inr (join ''\<newline>''
                                   (ebnf_lines @ concat rules @ [base_grammar function_format]))))))"

section \<open>The shapes the specification names\<close>

text \<open>
  The specification describes the optional block in words: alternative \<open>i\<close> is
  fragment \<open>i\<close> followed, for every later \<open>j\<close>, by that fragment behind a separator
  and made optional; the alternatives are joined with a bar. These two definitions
  follow that description, to be compared with what the loops of the source build.
\<close>

definition spec_alternative :: "string \<Rightarrow> string list \<Rightarrow> nat \<Rightarrow> string" where
  \<open>spec_alternative sep fs i =
     fs ! i @ concat (map (\<lambda>j. '' ( "'' @ sep @ ''" '' @ fs ! j @ '' )?'') [Suc i..<length fs])\<close>


text \<open>
  The specification's type table: the format's overrides first, then the base mapping,
  then the format's own top-level rule, whose name is the format's.
\<close>

definition spec_resolve :: "string \<Rightarrow> string \<Rightarrow> string" where
  "spec_resolve fmt ty =
     (case map_of (case map_of FORMAT_TYPE_OVERRIDES fmt of None \<Rightarrow> [] | Some ov \<Rightarrow> ov) ty of
        Some r \<Rightarrow> r
      | None \<Rightarrow> (case map_of BASE_TYPE_MAPPING ty of Some r \<Rightarrow> r | None \<Rightarrow> fmt))"

text \<open>The number of positions of a text at which a given piece starts.\<close>

fun occurrences :: "string \<Rightarrow> string \<Rightarrow> nat" where
  "occurrences piece [] = 0"
| "occurrences piece (c # cs) =
     (if prefix piece (c # cs) then 1 else 0) + occurrences piece cs"

section \<open>Loops that cannot fail\<close>

lemma for_each_Inr:
  "(\<And>x. x \<in> set xs \<Longrightarrow> f x = Inr (g x)) \<Longrightarrow> for_each f xs = Inr (map g xs)"
  by (induction xs) auto

lemma for_each_cong:
  "(\<And>x. x \<in> set xs \<Longrightarrow> f x = g x) \<Longrightarrow> for_each f xs = for_each g xs"
  by (induction xs) (auto split: sum.splits)

text \<open>The dictionary of key-value pairs has exactly the property names as keys.\<close>

lemma prop_kv_pairs_dom:
  "prop_kv_pairs kvt fmt props d = Inr kv \<Longrightarrow> dom kv = dom d \<union> set (map fst props)"
proof (induction props arbitrary: d)
  case Nil
  then show ?case by simp
next
  case (Cons p props)
  obtain k schema where p: "p = (k, schema)" by (cases p)
  from Cons.prems obtain pair where
    "prop_kv_pairs kvt fmt props (d(k \<mapsto> pair)) = Inr kv"
    by (auto simp: p Let_def split: sum.splits)
  from Cons.IH[OF this] show ?case by (auto simp: p)
qed

lemma for_each_getitem:
  "set ks \<subseteq> dom kv \<Longrightarrow> for_each (getitem kv) ks = Inr (map (\<lambda>k. the (kv k)) ks)"
  by (rule for_each_Inr) (auto simp: getitem_def)


lemma opt_part_Inr:
  assumes "set optional \<subseteq> dom kv" "j < length optional"
  shows "opt_part sep kv optional i j =
           Inr (if j = i then the (kv (optional ! j))
                else '' ( '' @ [CHR 0x22] @ sep @ [CHR 0x22] @ '' '' @ the (kv (optional ! j)) @ '' )?'')"
proof -
  from assms have "optional ! j \<in> dom kv" using nth_mem by blast
  then show ?thesis by (auto simp: opt_part_def getitem_def)
qed

lemma opt_alternative_Inr:
  assumes "set optional \<subseteq> dom kv" "i < length optional"
  shows "opt_alternative sep kv optional i =
           Inr (spec_alternative sep (map (\<lambda>k. the (kv k)) optional) i)"
proof -
  let ?g = "\<lambda>j. if j = i then the (kv (optional ! j))
                 else '' ( '' @ [CHR 0x22] @ sep @ [CHR 0x22] @ '' '' @ the (kv (optional ! j)) @ '' )?''"
  have "for_each (opt_part sep kv optional i) [i..<length optional] = Inr (map ?g [i..<length optional])"
    by (rule for_each_Inr) (use assms in \<open>simp add: opt_part_Inr\<close>)
  moreover have "[i..<length optional] = i # [Suc i..<length optional]"
    using assms(2) by (simp add: upt_conv_Cons)
  moreover have "map ?g [Suc i..<length optional] =
      map (\<lambda>j. '' ( '' @ [CHR 0x22] @ sep @ [CHR 0x22] @ '' '' @ map (\<lambda>k. the (kv k)) optional ! j @ '' )?'')
        [Suc i..<length optional]"
    by (rule map_cong) auto
  ultimately show ?thesis
    using assms(2) by (simp add: opt_alternative_def spec_alternative_def)
qed

lemma opt_alternatives_Inr:
  assumes "set optional \<subseteq> dom kv"
  shows "opt_alternatives sep kv optional =
           Inr (map (spec_alternative sep (map (\<lambda>k. the (kv k)) optional)) [0..<length optional])"
  unfolding opt_alternatives_def
  by (rule for_each_Inr) (use assms in \<open>simp add: opt_alternative_Inr\<close>)

section \<open>Enum literals\<close>

text \<open>
  An enum of more than one element is parenthesised, its elements joined with a bar;
  a single element stands alone.
\<close>

lemma handle_enum_many:
  "length vs > 1 \<Longrightarrow>
   handle_enum vs ty fmt =
     ''('' @ join '' | '' (map (format_enum_val (case ty of None \<Rightarrow> TypeName ''string'' | Some t \<Rightarrow> t) fmt) vs) @ '')''"
  by (simp add: handle_enum_def Let_def)

lemma handle_enum_single:
  "handle_enum [v] ty fmt =
     format_enum_val (case ty of None \<Rightarrow> TypeName ''string'' | Some t \<Rightarrow> t) fmt v"
  by (simp add: handle_enum_def Let_def)

text \<open>
  Claim C5. The boolean enum \<^verbatim>\<open>{"enum": [true, false], "type": "boolean"}\<close> is said
  to render as the quoted literals \<^verbatim>\<open>("true" | "false")\<close> for json and xml and
  \<^verbatim>\<open>("True" | "False")\<close> for pythonic. The source returns the bare words: the
  parentheses and the bar are there, the quotation marks around each literal are not.
\<close>

theorem boolean_enum_unquoted:
  "get_value_rule \<lparr>p_enum = Some [PyBool True, PyBool False], p_type = Some (TypeName ''boolean'')\<rparr> ''json''
     = ''(true | false)''
   \<and> get_value_rule \<lparr>p_enum = Some [PyBool True, PyBool False], p_type = Some (TypeName ''boolean'')\<rparr> ''xml''
     = ''(true | false)''
   \<and> get_value_rule \<lparr>p_enum = Some [PyBool True, PyBool False], p_type = Some (TypeName ''boolean'')\<rparr> ''pythonic''
     = ''(True | False)''"
  by (simp add: get_value_rule_def handle_enum_def format_enum_val_def Let_def)

section \<open>The arguments fragment\<close>


lemma required_part_Inr:
  "set required \<subseteq> dom kv \<Longrightarrow>
   required_part sep kv required =
     Inr (if required \<noteq> [] then [join ('' '' @ [CHR 0x22] @ sep @ [CHR 0x22] @ '' '') (map (\<lambda>k. the (kv k)) required)] else [])"
  by (simp add: required_part_def for_each_getitem)

lemma partition_in_dom:
  assumes "prop_kv_pairs kvt fmt props Map.empty = Inr kv"
  shows "set (required_list (map fst props) R) \<subseteq> dom kv"
    and "set (optional_list (map fst props) R) \<subseteq> dom kv"
  using prop_kv_pairs_dom[OF assms] by (auto simp: required_list_def optional_list_def)

text \<open>The definitions a concrete evaluation unfolds.\<close>

lemmas eval_defs =
  tool_properties_def tool_required_def str_format_def get_value_rule_def handle_type_def
  get_type_mapping_def get_default_def BASE_TYPE_MAPPING_def FORMAT_TYPE_OVERRIDES_def
  get_field_def getitem_def emit_def is_digit_def required_list_def optional_list_def










section \<open>The required and the optional properties\<close>

text \<open>Two elements a filter keeps stand in the list in the same order.\<close>

lemma filter_keeps_order:
  "i < j \<Longrightarrow> j < length (filter P xs) \<Longrightarrow>
   \<exists>i' j'. i' < j' \<and> j' < length xs \<and> xs ! i' = filter P xs ! i \<and> xs ! j' = filter P xs ! j"
proof (induction xs arbitrary: i j)
  case Nil
  then show ?case by simp
next
  case (Cons x xs)
  show ?case
  proof (cases "P x")
    case False
    with Cons.prems have "i < j" "j < length (filter P xs)" by simp_all
    from Cons.IH[OF this] obtain i' j' where
      "i' < j'" "j' < length xs" "xs ! i' = filter P xs ! i" "xs ! j' = filter P xs ! j" by blast
    with False show ?thesis
      by (intro exI[of _ "Suc i'"] exI[of _ "Suc j'"]) simp
  next
    case True
    from Cons.prems obtain j0 where j: "j = Suc j0" by (cases j) auto
    with Cons.prems True have j0: "j0 < length (filter P xs)" by simp
    show ?thesis
    proof (cases i)
      case 0
      from j0 have "filter P xs ! j0 \<in> set xs"
        using nth_mem[OF j0] by auto
      then obtain k where "k < length xs" "xs ! k = filter P xs ! j0"
        by (auto simp: in_set_conv_nth)
      with True 0 j show ?thesis
        by (intro exI[of _ 0] exI[of _ "Suc k"]) simp
    next
      case (Suc i0)
      with Cons.prems j have "i0 < j0" by simp
      from Cons.IH[OF this j0] obtain i' j' where
        "i' < j'" "j' < length xs" "xs ! i' = filter P xs ! i0" "xs ! j' = filter P xs ! j0" by blast
      with True Suc j show ?thesis
        by (intro exI[of _ "Suc i'"] exI[of _ "Suc j'"]) simp
    qed
  qed
qed

text \<open>
  Claim C8. The required list is the subsequence of the declaration order at the
  positions whose name is in the required set, the optional list the subsequence at
  the other positions. Both are subsequences of the declaration order, together they
  have all its positions, and two names of one list stand in the declaration order
  as they stand in the list.
\<close>

theorem partition_preserves_order:
  "required_list ordered R = nths ordered {i. i < length ordered \<and> ordered ! i \<in> R}
   \<and> optional_list ordered R = nths ordered {i. i < length ordered \<and> ordered ! i \<notin> R}
   \<and> subseq (required_list ordered R) ordered
   \<and> subseq (optional_list ordered R) ordered
   \<and> length (required_list ordered R) + length (optional_list ordered R) = length ordered
   \<and> (\<forall>i j. i < j \<and> j < length (required_list ordered R) \<longrightarrow>
         (\<exists>i' j'. i' < j' \<and> j' < length ordered
            \<and> ordered ! i' = required_list ordered R ! i
            \<and> ordered ! j' = required_list ordered R ! j))
   \<and> (\<forall>i j. i < j \<and> j < length (optional_list ordered R) \<longrightarrow>
         (\<exists>i' j'. i' < j' \<and> j' < length ordered
            \<and> ordered ! i' = optional_list ordered R ! i
            \<and> ordered ! j' = optional_list ordered R ! j))"
proof -
  have n1: "required_list ordered R = nths ordered {i. i < length ordered \<and> ordered ! i \<in> R}"
    unfolding required_list_def by (rule filter_eq_nths)
  have n2: "optional_list ordered R = nths ordered {i. i < length ordered \<and> ordered ! i \<notin> R}"
    unfolding optional_list_def by (rule filter_eq_nths)
  have s1: "subseq (required_list ordered R) ordered"
    and s2: "subseq (optional_list ordered R) ordered"
    by (simp_all add: required_list_def optional_list_def)
  have len: "length (required_list ordered R) + length (optional_list ordered R) = length ordered"
    using sum_length_filter_compl[of "\<lambda>p. p \<in> R" ordered]
    by (simp add: required_list_def optional_list_def)
  have o1: "\<forall>i j. i < j \<and> j < length (required_list ordered R) \<longrightarrow>
         (\<exists>i' j'. i' < j' \<and> j' < length ordered
            \<and> ordered ! i' = required_list ordered R ! i
            \<and> ordered ! j' = required_list ordered R ! j)"
    unfolding required_list_def using filter_keeps_order by blast
  have o2: "\<forall>i j. i < j \<and> j < length (optional_list ordered R) \<longrightarrow>
         (\<exists>i' j'. i' < j' \<and> j' < length ordered
            \<and> ordered ! i' = optional_list ordered R ! i
            \<and> ordered ! j' = optional_list ordered R ! j)"
    unfolding optional_list_def using filter_keeps_order by blast
  from n1 n2 s1 s2 len o1 o2 show ?thesis by blast
qed

theorem partition_preserves_order_witness:
  "required_list [''a'', ''b'', ''c'', ''d''] {''d'', ''b'', ''q''} = [''b'', ''d'']
   \<and> optional_list [''a'', ''b'', ''c'', ''d''] {''d'', ''b'', ''q''} = [''a'', ''c'']
   \<and> subseq (required_list [''a'', ''b'', ''c'', ''d''] {''d'', ''b'', ''q''}) [''a'', ''b'', ''c'', ''d'']
   \<and> subseq (optional_list [''a'', ''b'', ''c'', ''d''] {''d'', ''b'', ''q''}) [''a'', ''b'', ''c'', ''d'']"
proof -
  have r: "required_list [''a'', ''b'', ''c'', ''d''] {''d'', ''b'', ''q''} = [''b'', ''d'']"
    and o: "optional_list [''a'', ''b'', ''c'', ''d''] {''d'', ''b'', ''q''} = [''a'', ''c'']"
    by (simp_all add: required_list_def optional_list_def)
  from partition_preserves_order[of "[''a'', ''b'', ''c'', ''d'']" "{''d'', ''b'', ''q''}"]
  have "subseq (required_list [''a'', ''b'', ''c'', ''d''] {''d'', ''b'', ''q''}) [''a'', ''b'', ''c'', ''d'']
      \<and> subseq (optional_list [''a'', ''b'', ''c'', ''d''] {''d'', ''b'', ''q''}) [''a'', ''b'', ''c'', ''d'']"
    by blast
  with r o show ?thesis by blast
qed

text \<open>A loop depends on its list only through the results of its body.\<close>

lemma for_each_map: "for_each f xs = for_each (\<lambda>y. y) (map f xs)"
  by (induction xs) (auto split: sum.splits)

text \<open>
  Claim C10. A name of the required set that is not a key of the property mapping is
  ignored. Let \<open>t'\<close> be the tool \<open>t\<close> with that name removed from its required set:
  the name is in neither list of \<open>t\<close>, and the arguments fragment, the two rules of
  the tool and the whole grammar are the same for \<open>t\<close> and \<open>t'\<close>, errors included.
\<close>

theorem absent_required_name_ignored:
  assumes absent: "x \<notin> set (map fst (tool_properties t))"
      and name: "function_name t' = function_name t"
      and props: "tool_properties t' = tool_properties t"
      and req: "set (tool_required t') = set (tool_required t) - {x}"
  shows "x \<notin> set (required_list (map fst (tool_properties t)) (set (tool_required t)))
       \<and> x \<notin> set (optional_list (map fst (tool_properties t)) (set (tool_required t)))
       \<and> arguments_fragment kvt fmt sep t = arguments_fragment kvt fmt sep t'
       \<and> tool_rules fmt ct at kvt sep t = tool_rules fmt ct at kvt sep t'
       \<and> build_ebnf (ts @ t # us) fmt a = build_ebnf (ts @ t' # us) fmt a"
proof -
  let ?keys = "map fst (tool_properties t)"
  have r: "required_list ?keys (set (tool_required t')) = required_list ?keys (set (tool_required t))"
    unfolding required_list_def req using absent by (intro filter_cong) auto
  have o: "optional_list ?keys (set (tool_required t')) = optional_list ?keys (set (tool_required t))"
    unfolding optional_list_def req using absent by (intro filter_cong) auto
  have frag: "arguments_fragment kvt fmt s t = arguments_fragment kvt fmt s t'" for kvt s
    unfolding arguments_fragment_def Let_def props r o ..
  have rules: "tool_rules fmt ct at kvt s t = tool_rules fmt ct at kvt s t'" for ct at kvt s
    unfolding tool_rules_def Let_def frag name ..
  have fe: "for_each (tool_rules fmt ct at kvt s) (ts @ t # us)
      = for_each (tool_rules fmt ct at kvt s) (ts @ t' # us)" for ct at kvt s
    by (subst (1 2) for_each_map) (simp add: rules)
  have "build_ebnf (ts @ t # us) fmt a = build_ebnf (ts @ t' # us) fmt a"
    by (simp add: build_ebnf_def Let_def header_lines_def name fe split: sum.splits)
  with frag rules absent show ?thesis
    by (auto simp: required_list_def optional_list_def)
qed

theorem absent_required_name_ignored_witness:
  \<open>''ghost'' \<notin> set (map fst (tool_properties
      \<lparr>function_name = ''f'',
       function_parameters = Some
         \<lparr>params_properties = Some [(''a'', \<lparr>p_enum = None, p_type = Some (TypeName ''string'')\<rparr>)],
          params_required = Some [''a'', ''ghost'']\<rparr>\<rparr>))
   \<and> set (tool_required
      \<lparr>function_name = ''f'',
       function_parameters = Some
         \<lparr>params_properties = Some [(''a'', \<lparr>p_enum = None, p_type = Some (TypeName ''string'')\<rparr>)],
          params_required = Some [''a'']\<rparr>\<rparr>)
     = set (tool_required
      \<lparr>function_name = ''f'',
       function_parameters = Some
         \<lparr>params_properties = Some [(''a'', \<lparr>p_enum = None, p_type = Some (TypeName ''string'')\<rparr>)],
          params_required = Some [''a'', ''ghost'']\<rparr>\<rparr>) - {''ghost''}
   \<and> arguments_fragment ''"{key}" "=" {valrule}'' ''pythonic'' '',''
      \<lparr>function_name = ''f'',
       function_parameters = Some
         \<lparr>params_properties = Some [(''a'', \<lparr>p_enum = None, p_type = Some (TypeName ''string'')\<rparr>)],
          params_required = Some [''a'', ''ghost'']\<rparr>\<rparr>
     = Inr ''"a" "=" basic_string''
   \<and> arguments_fragment ''"{key}" "=" {valrule}'' ''pythonic'' '',''
      \<lparr>function_name = ''f'',
       function_parameters = Some
         \<lparr>params_properties = Some [(''a'', \<lparr>p_enum = None, p_type = Some (TypeName ''string'')\<rparr>)],
          params_required = Some [''a'']\<rparr>\<rparr>
     = Inr ''"a" "=" basic_string''
   \<and> build_ebnf
      [\<lparr>function_name = ''f'',
       function_parameters = Some
         \<lparr>params_properties = Some [(''a'', \<lparr>p_enum = None, p_type = Some (TypeName ''string'')\<rparr>)],
          params_required = Some [''a'', ''ghost'']\<rparr>\<rparr>] ''pythonic''
      \<lparr>sequence_start_token = None, sequence_end_token = None,
         individual_call_start_token = None, individual_call_end_token = None,
         tool_call_separator = None, call_rule_fmt = None, key_value_rule_fmt = None,
         key_value_separator = '',''\<rparr>
     = build_ebnf
      [\<lparr>function_name = ''f'',
       function_parameters = Some
         \<lparr>params_properties = Some [(''a'', \<lparr>p_enum = None, p_type = Some (TypeName ''string'')\<rparr>)],
          params_required = Some [''a'']\<rparr>\<rparr>] ''pythonic''
      \<lparr>sequence_start_token = None, sequence_end_token = None,
         individual_call_start_token = None, individual_call_end_token = None,
         tool_call_separator = None, call_rule_fmt = None, key_value_rule_fmt = None,
         key_value_separator = '',''\<rparr>\<close>
proof -
  let ?t = "\<lparr>function_name = ''f'',
       function_parameters = Some
         \<lparr>params_properties = Some [(''a'', \<lparr>p_enum = None, p_type = Some (TypeName ''string'')\<rparr>)],
          params_required = Some [''a'', ''ghost'']\<rparr>\<rparr>"
  let ?t' = "\<lparr>function_name = ''f'',
       function_parameters = Some
         \<lparr>params_properties = Some [(''a'', \<lparr>p_enum = None, p_type = Some (TypeName ''string'')\<rparr>)],
          params_required = Some [''a'']\<rparr>\<rparr>"
  have h1: "''ghost'' \<notin> set (map fst (tool_properties ?t))"
    by (simp add: eval_defs)
  have h2: "function_name ?t' = function_name ?t"
    by simp
  have h3: "tool_properties ?t' = tool_properties ?t"
    by (simp add: eval_defs)
  have h4: "set (tool_required ?t') = set (tool_required ?t) - {''ghost''}"
    by (auto simp: eval_defs)
  note same = absent_required_name_ignored[OF h1 h2 h3 h4, where ts = "[]" and us = "[]"
      and fmt = "''pythonic''" and sep = "'',''"]
  have f: \<open>arguments_fragment ''"{key}" "=" {valrule}'' ''pythonic'' '','' ?t'
           = Inr ''"a" "=" basic_string''\<close>
    by (simp add: arguments_fragment_def combined_args_def required_part_def eval_defs)
  from same[where kvt = \<open>''"{key}" "=" {valrule}''\<close>] f h1 h4 show ?thesis
    by simp
qed

section \<open>Formats, the header and the root rule\<close>

text \<open>
  The three template tables have the same three keys. A known format finds all its
  templates; any other format finds no arguments template.
\<close>

lemma templates_known:
  assumes "fmt \<in> {''json'', ''pythonic'', ''xml''}"
  shows "\<exists>ct. call_template fmt a = Inr ct"
    and "\<exists>at. args_template fmt = Inr at"
    and "\<exists>kvt. key_value_template fmt a = Inr kvt"
  using assms
  by (auto simp: call_template_def args_template_def key_value_template_def getitem_def
      CALL_RULE_MAP_def ARGUMENTS_RULE_MAP_def KEY_VALUE_RULE_MAP_def)

lemma templates_unknown:
  assumes "fmt \<notin> {''json'', ''pythonic'', ''xml''}"
  shows "args_template fmt = Inl (KeyError fmt)"
    and "call_template fmt a = Inl (KeyError fmt) \<or> (\<exists>ct. call_template fmt a = Inr ct)"
  using assms
  by (auto simp: call_template_def args_template_def getitem_def
      CALL_RULE_MAP_def ARGUMENTS_RULE_MAP_def)

text \<open>
  Claim C9. With an empty tool list and one of the three formats the function
  declares, \<^verbatim>\<open>build_ebnf\<close> returns a grammar: the root rule, the line
  \<^verbatim>\<open>function_call ::= \<close> with nothing after it, and the base grammar. The loop over
  the tools adds no line.
\<close>

theorem empty_tool_list:
  assumes "fmt \<in> {''json'', ''pythonic'', ''xml''}"
  shows "build_ebnf [] fmt a =
           Inr (join ''\<newline>'' [''root ::= '' @ root_rule a, ''function_call ::= '', base_grammar fmt])
       \<and> header_lines [] a ! 1 = ''function_call ::= ''
       \<and> for_each (tool_rules fmt ct at kvt sep) [] = Inr []"
proof -
  from templates_known(1)[OF assms, of a] templates_known(2)[OF assms]
    templates_known(3)[OF assms, of a] obtain ct' at' kvt' where
    "call_template fmt a = Inr ct'" "args_template fmt = Inr at'" "key_value_template fmt a = Inr kvt'"
    by blast
  then show ?thesis
    by (simp add: build_ebnf_def Let_def header_lines_def)
qed

theorem empty_tool_list_witness:
  "''json'' \<in> {''json'', ''pythonic'', ''xml''}
   \<and> build_ebnf [] ''json''
       \<lparr>sequence_start_token = None, sequence_end_token = None,
       individual_call_start_token = None, individual_call_end_token = None,
       tool_call_separator = None, call_rule_fmt = None, key_value_rule_fmt = None,
       key_value_separator = '',''\<rparr>
     = Inr (''root ::= function_call'' @ ''\<newline>'' @ ''function_call ::= '' @ ''\<newline>'' @ json_grammar_ebnf_str)"
proof -
  have h: "''json'' \<in> {''json'', ''pythonic'', ''xml''}" by simp
  from empty_tool_list[OF h, where a = "\<lparr>sequence_start_token = None, sequence_end_token = None,
       individual_call_start_token = None, individual_call_end_token = None,
       tool_call_separator = None, call_rule_fmt = None, key_value_rule_fmt = None,
       key_value_separator = '',''\<rparr>"]
  show ?thesis
    by (simp add: root_rule_def truthy_def base_grammar_def grammar_dict_def get_default_def)
qed

text \<open>
  A format outside json, pythonic and xml finds no entry in \<^verbatim>\<open>CALL_RULE_MAP\<close> and
  none in \<^verbatim>\<open>ARGUMENTS_RULE_MAP\<close>: both are plain subscripts, so the call raises
  \<^verbatim>\<open>KeyError\<close> with the format as its key, whatever the tools and the wrapping.
\<close>

lemma unknown_format_raises:
  assumes "fmt \<notin> {''json'', ''pythonic'', ''xml''}"
  shows "build_ebnf tools fmt a = Inl (KeyError fmt)"
  using templates_unknown(1)[OF assms] templates_unknown(2)[OF assms, of a]
  by (auto simp: build_ebnf_def Let_def)

text \<open>
  Claim C2. An unrecognised format is said to give the grammar of json. The last step
  of the source does fall back to json for the base grammar, but the call never gets
  there: on one tool without parameters and the format \<^verbatim>\<open>yaml\<close> it raises
  \<^verbatim>\<open>KeyError\<close>, while the same call with json returns a grammar.
\<close>

theorem unknown_format_key_error:
  "build_ebnf [\<lparr>function_name = ''f'', function_parameters = None\<rparr>] ''yaml''
       \<lparr>sequence_start_token = None, sequence_end_token = None,
       individual_call_start_token = None, individual_call_end_token = None,
       tool_call_separator = None, call_rule_fmt = None, key_value_rule_fmt = None,
       key_value_separator = '',''\<rparr>
     = Inl (KeyError ''yaml'')
   \<and> build_ebnf [\<lparr>function_name = ''f'', function_parameters = None\<rparr>] ''yaml''
       \<lparr>sequence_start_token = None, sequence_end_token = None,
       individual_call_start_token = None, individual_call_end_token = None,
       tool_call_separator = None, call_rule_fmt = None, key_value_rule_fmt = None,
       key_value_separator = '',''\<rparr>
     \<noteq> build_ebnf [\<lparr>function_name = ''f'', function_parameters = None\<rparr>] ''json''
       \<lparr>sequence_start_token = None, sequence_end_token = None,
       individual_call_start_token = None, individual_call_end_token = None,
       tool_call_separator = None, call_rule_fmt = None, key_value_rule_fmt = None,
       key_value_separator = '',''\<rparr>
   \<and> base_grammar ''yaml'' = json_grammar_ebnf_str"
  by (simp add: build_ebnf_def Let_def call_template_def args_template_def key_value_template_def
      truthy_def getitem_def CALL_RULE_MAP_def ARGUMENTS_RULE_MAP_def KEY_VALUE_RULE_MAP_def
      tool_rules_def arguments_fragment_def combined_args_def required_part_def eval_defs bs_def
      base_grammar_def grammar_dict_def)

text \<open>
  Claim C7. With the sequence tokens \<^verbatim>\<open><tools>\<close> and \<^verbatim>\<open></tools>\<close>, the separator
  \<^verbatim>\<open>;\<close> and no tokens around a single call, the root rule is
  \<^verbatim>\<open>"<tools>" function_call ( ";" function_call )* "</tools>"\<close>: each of the three
  quoted literals occurs once, around and between a repeated \<^verbatim>\<open>function_call\<close>.
  Every grammar \<^verbatim>\<open>build_ebnf\<close> returns with these arguments starts with that rule
  on its first line.
\<close>

theorem root_rule_wrapping:
  assumes "sequence_start_token a = Some ''<tools>''"
      and "sequence_end_token a = Some ''</tools>''"
      and "tool_call_separator a = Some '';''"
      and "individual_call_start_token a = None"
      and "individual_call_end_token a = None"
  shows \<open>root_rule a = ''"<tools>" function_call ( ";" function_call )* "</tools>"''
       \<and> occurrences ''"<tools>"'' (root_rule a) = 1
       \<and> occurrences ''"</tools>"'' (root_rule a) = 1
       \<and> occurrences ''";"'' (root_rule a) = 1
       \<and> occurrences ''function_call'' (root_rule a) = 2
       \<and> (\<forall>tools fmt g. build_ebnf tools fmt a = Inr g \<longrightarrow>
            (\<exists>rest. g = ''root ::= '' @ root_rule a @ ''\<newline>'' @ rest))\<close>
proof -
  have r: \<open>root_rule a = ''"<tools>" function_call ( ";" function_call )* "</tools>"''\<close>
    using assms by (simp add: root_rule_def truthy_def fstr_def)
  have o1: \<open>occurrences ''"<tools>"'' (root_rule a) = 1\<close>
    unfolding r by simp
  have o2: \<open>occurrences ''"</tools>"'' (root_rule a) = 1\<close>
    unfolding r by simp
  have o3: \<open>occurrences ''";"'' (root_rule a) = 1\<close>
    unfolding r by simp
  have o4: \<open>occurrences ''function_call'' (root_rule a) = 2\<close>
    unfolding r by simp
  have b: "\<exists>rest. g = ''root ::= '' @ root_rule a @ ''\<newline>'' @ rest"
    if "build_ebnf tools fmt a = Inr g" for tools fmt g
    using that by (auto simp: build_ebnf_def Let_def header_lines_def split: sum.splits)
  from r o1 o2 o3 o4 b show ?thesis by blast
qed

theorem root_rule_wrapping_witness:
  \<open>root_rule
       \<lparr>sequence_start_token = Some ''<tools>'', sequence_end_token = Some ''</tools>'',
       individual_call_start_token = None, individual_call_end_token = None,
       tool_call_separator = Some '';'', call_rule_fmt = None, key_value_rule_fmt = None,
       key_value_separator = '',''\<rparr>
     = ''"<tools>" function_call ( ";" function_call )* "</tools>"''
   \<and> (\<exists>rest. build_ebnf [] ''json''
       \<lparr>sequence_start_token = Some ''<tools>'', sequence_end_token = Some ''</tools>'',
       individual_call_start_token = None, individual_call_end_token = None,
       tool_call_separator = Some '';'', call_rule_fmt = None, key_value_rule_fmt = None,
       key_value_separator = '',''\<rparr>
     = Inr (''root ::= "<tools>" function_call ( ";" function_call )* "</tools>"'' @ ''\<newline>'' @ rest))\<close>
proof -
  let ?a = "\<lparr>sequence_start_token = Some ''<tools>'', sequence_end_token = Some ''</tools>'',
       individual_call_start_token = None, individual_call_end_token = None,
       tool_call_separator = Some '';'', call_rule_fmt = None, key_value_rule_fmt = None,
       key_value_separator = '',''\<rparr>"
  have g: "build_ebnf [] ''json'' ?a
      = Inr (join ''\<newline>'' [''root ::= '' @ root_rule ?a, ''function_call ::= '', base_grammar ''json''])"
    by (simp add: build_ebnf_def Let_def header_lines_def call_template_def args_template_def
        key_value_template_def truthy_def getitem_def CALL_RULE_MAP_def ARGUMENTS_RULE_MAP_def
        KEY_VALUE_RULE_MAP_def)
  have h: "sequence_start_token ?a = Some ''<tools>''" "sequence_end_token ?a = Some ''</tools>''"
    "tool_call_separator ?a = Some '';''" "individual_call_start_token ?a = None"
    "individual_call_end_token ?a = None"
    by simp_all
  note shape = root_rule_wrapping[OF h]
  from shape have
    r: \<open>root_rule ?a = ''"<tools>" function_call ( ";" function_call )* "</tools>"''\<close>
    by (rule conjunct1)
  from shape have b: "\<forall>tools fmt g. build_ebnf tools fmt ?a = Inr g \<longrightarrow>
            (\<exists>rest. g = ''root ::= '' @ root_rule ?a @ ''\<newline>'' @ rest)"
    by blast
  from b g obtain rest where
    "join ''\<newline>'' [''root ::= '' @ root_rule ?a, ''function_call ::= '', base_grammar ''json'']
       = ''root ::= '' @ root_rule ?a @ ''\<newline>'' @ rest"
    by blast
  with g have "build_ebnf [] ''json'' ?a = Inr (''root ::= '' @ root_rule ?a @ ''\<newline>'' @ rest)"
    by simp
  with r show ?thesis
    by (intro conjI exI[of _ rest]) simp_all
qed

section \<open>Types\<close>

text \<open>
  Claim C6, as amended. For a schema without an enum: a single type name resolves
  through the base mapping overlaid with the format's overrides, an unknown name
  resolving to the format's own top-level rule, which carries the format's name; a
  non-empty list of names gives the resolved names joined with a bar; an empty list
  and an absent type both give the format's top-level rule.
\<close>

theorem type_resolution:
  "(p_enum p = None \<and> p_type p = Some (TypeName ty) \<longrightarrow>
      get_value_rule p fmt = spec_resolve fmt ty)
   \<and> (p_enum p = None \<and> p_type p = Some (TypeList tys) \<and> tys \<noteq> [] \<longrightarrow>
      get_value_rule p fmt = join '' | '' (map (spec_resolve fmt) tys))
   \<and> (p_enum p = None \<and> p_type p = Some (TypeList []) \<longrightarrow> get_value_rule p fmt = fmt)
   \<and> (p_enum p = None \<and> p_type p = None \<longrightarrow> get_value_rule p fmt = fmt)"
proof -
  have res: "get_default (get_type_mapping fmt) ty fmt = spec_resolve fmt ty" for ty
    by (simp add: get_default_def get_type_mapping_def spec_resolve_def map_add_def
        split: option.splits)
  show ?thesis
    by (simp add: get_value_rule_def handle_type_def Let_def res)
qed

theorem type_resolution_witness:
  \<open>get_value_rule \<lparr>p_enum = None, p_type = Some (TypeList [''string'', ''null'', ''tuple''])\<rparr> ''pythonic''
     = ''basic_string | "None" | pythonic''
   \<and> get_value_rule \<lparr>p_enum = None, p_type = Some (TypeName ''string'')\<rparr> ''xml'' = ''xml_text''
   \<and> get_value_rule \<lparr>p_enum = None, p_type = Some (TypeList [])\<rparr> ''json'' = ''json''
   \<and> get_value_rule \<lparr>p_enum = None, p_type = None\<rparr> ''json'' = ''json''\<close>
proof -
  have sr: \<open>spec_resolve ''pythonic'' ''string'' = ''basic_string''\<close>
    \<open>spec_resolve ''pythonic'' ''null'' = ''"None"''\<close>
    \<open>spec_resolve ''pythonic'' ''tuple'' = ''pythonic''\<close>
    \<open>spec_resolve ''xml'' ''string'' = ''xml_text''\<close>
    by (simp_all add: spec_resolve_def FORMAT_TYPE_OVERRIDES_def BASE_TYPE_MAPPING_def)
  from type_resolution[of "\<lparr>p_enum = None, p_type = Some (TypeList [''string'', ''null'', ''tuple''])\<rparr>"
        "''string''" "''pythonic''" "[''string'', ''null'', ''tuple'']"]
    type_resolution[of "\<lparr>p_enum = None, p_type = Some (TypeName ''string'')\<rparr>" "''string''" "''xml''" "[]"]
    type_resolution[of "\<lparr>p_enum = None, p_type = Some (TypeList [])\<rparr>" "''string''" "''json''" "[]"]
    type_resolution[of "\<lparr>p_enum = None, p_type = None\<rparr>" "''string''" "''json''" "[]"]
  show ?thesis
    by (simp add: sr)
qed

text \<open>
  The claim C6 as stated fails in two places. A schema with a type and an enum is
  rendered from its enum, not from its type; and the empty list of types does not give
  the empty join but the format's top-level rule.
\<close>

theorem type_resolution_counterexample:
  \<open>get_value_rule \<lparr>p_enum = Some [PyStr ''a''], p_type = Some (TypeName ''string'')\<rparr> ''json''
     = ''"'' @ bs @ ''"a'' @ bs @ ''""''
   \<and> get_value_rule \<lparr>p_enum = Some [PyStr ''a''], p_type = Some (TypeName ''string'')\<rparr> ''json''
     \<noteq> ''basic_string''
   \<and> get_value_rule \<lparr>p_enum = None, p_type = Some (TypeList [])\<rparr> ''json'' = ''json''
   \<and> get_value_rule \<lparr>p_enum = None, p_type = Some (TypeList [])\<rparr> ''json''
     \<noteq> join '' | '' []\<close>
  by (simp add: get_value_rule_def handle_enum_def format_enum_val_def handle_type_def Let_def bs_def)

section \<open>The default templates never fail\<close>

text \<open>
  The key-value pairs of the three formats; with them the formatting loop returns a
  dictionary for every property list, no lookup in that dictionary fails, and
  \<^verbatim>\<open>build_ebnf\<close> without template overrides returns a grammar for every tool list.
\<close>

lemma key_value_format_default:
  \<open>str_format ''"{key}" "=" {valrule}'' [(''key'', k), (''valrule'', v)]
     = Inr (''"'' @ k @ ''" "=" '' @ v)\<close>
  \<open>str_format (''"'' @ bs @ ''"{key}'' @ bs @ ''"" ":" {valrule}'') [(''key'', k), (''valrule'', v)]
     = Inr (''"'' @ bs @ ''"'' @ k @ bs @ ''"" ":" '' @ v)\<close>
  \<open>str_format (''"<parameter={key}>'' @ bs @ ''n" {valrule} "'' @ bs @ ''n</parameter>"'')
       [(''key'', k), (''valrule'', v)]
     = Inr (''"<parameter='' @ k @ ''>'' @ bs @ ''n" '' @ v @ '' "'' @ bs @ ''n</parameter>"'')\<close>
  by (simp_all add: str_format_def get_field_def getitem_def emit_def is_digit_def bs_def)

lemma prop_kv_pairs_default:
  assumes "map_of KEY_VALUE_RULE_MAP fmt = Some kvt"
  shows "\<exists>kv. prop_kv_pairs kvt fmt props d = Inr kv"
proof (induction props arbitrary: d)
  case Nil
  show ?case by simp
next
  case (Cons p props)
  obtain k schema where p: "p = (k, schema)" by (cases p)
  from assms have "\<exists>pair. str_format kvt [(''key'', k), (''valrule'', get_value_rule schema fmt)] = Inr pair"
    by (auto simp: KEY_VALUE_RULE_MAP_def str_format_def get_field_def getitem_def emit_def
        is_digit_def bs_def split: if_splits)
  with Cons.IH show ?case by (auto simp: p Let_def)
qed


lemma for_each_total:
  "(\<And>x. x \<in> set xs \<Longrightarrow> \<exists>y. f x = Inr y) \<Longrightarrow> \<exists>ys. for_each f xs = Inr ys"
proof (induction xs)
  case Nil
  show ?case by simp
next
  case (Cons x xs)
  from Cons.prems obtain y where "f x = Inr y" by auto
  moreover from Cons obtain ys where "for_each f xs = Inr ys" by auto
  ultimately show ?case by simp
qed

lemma arguments_fragment_total:
  assumes "prop_kv_pairs kvt fmt (tool_properties t) Map.empty = Inr kv"
  shows "\<exists>fragment. arguments_fragment kvt fmt sep t = Inr fragment"
proof -
  let ?required = "required_list (map fst (tool_properties t)) (set (tool_required t))"
  let ?optional = "optional_list (map fst (tool_properties t)) (set (tool_required t))"
  have "set ?required \<subseteq> dom kv" "set ?optional \<subseteq> dom kv"
    by (rule partition_in_dom[OF assms])+
  then have "\<exists>fragment. combined_args sep kv ?required ?optional = Inr fragment"
    by (simp add: combined_args_def required_part_Inr opt_alternatives_Inr)
  then show ?thesis
    by (simp add: arguments_fragment_def Let_def assms)
qed

lemma build_ebnf_default_total:
  assumes fmt: "fmt \<in> {''json'', ''pythonic'', ''xml''}"
      and no_call: "\<not> truthy (call_rule_fmt a)"
      and no_kv: "\<not> truthy (key_value_rule_fmt a)"
  shows "\<exists>grammar. build_ebnf tools fmt a = Inr grammar"
proof -
  from fmt obtain ct at kvt where
    ct: "call_template fmt a = Inr ct" "map_of CALL_RULE_MAP fmt = Some ct"
    and at: "args_template fmt = Inr at" "map_of ARGUMENTS_RULE_MAP fmt = Some at"
    and kvt: "key_value_template fmt a = Inr kvt" "map_of KEY_VALUE_RULE_MAP fmt = Some kvt"
    using no_call no_kv
    by (auto simp: call_template_def args_template_def key_value_template_def getitem_def
        CALL_RULE_MAP_def ARGUMENTS_RULE_MAP_def KEY_VALUE_RULE_MAP_def)
  have "\<exists>rules. tool_rules fmt ct at kvt sep t = Inr rules" for t sep
  proof -
    from prop_kv_pairs_default[OF kvt(2)] obtain kv where
      "prop_kv_pairs kvt fmt (tool_properties t) Map.empty = Inr kv" by blast
    from arguments_fragment_total[OF this] obtain fragment where
      f: "arguments_fragment kvt fmt sep t = Inr fragment" by blast
    from at(2) have "\<exists>r. str_format at [(''arg_rules'', fragment)] = Inr r"
      by (auto simp: ARGUMENTS_RULE_MAP_def str_format_def get_field_def getitem_def emit_def
          is_digit_def split: if_splits)
    moreover from ct(2) have "\<exists>r. str_format ct [(''name'', function_name t),
        (''arguments_rule'', ''arguments_'' @ function_name t)] = Inr r"
      by (auto simp: CALL_RULE_MAP_def str_format_def get_field_def getitem_def emit_def
          is_digit_def bs_def split: if_splits)
    ultimately show ?thesis
      by (auto simp: tool_rules_def Let_def f)
  qed
  then have "\<exists>rules. for_each (tool_rules fmt ct at kvt (key_value_separator a)) tools = Inr rules"
    by (intro for_each_total) blast
  then show ?thesis
    by (auto simp: build_ebnf_def Let_def ct at kvt)
qed

end
